theory Spec2Isabelle
  imports Main "HOL-Library.Sublist"
begin

section \<open>The chart rendering route of the data-to-infographic router\<close>

text \<open>
  This theory embeds the handler of \<^verbatim>\<open>POST /execute-python\<close> of
  \<^verbatim>\<open>createDataToInfographicRouter\<close> (src/unnamed/part_008, lines 784 to 893): the
  validation of the request, the per-request job directory under the shared temp
  directory, the composed Python script, the run of the interpreter through
  \<^verbatim>\<open>execAsync\<close>, the collection of the chart files and the delayed cleanup.

  The handler is glue around the Node runtime. What the runtime decides (the clock, the
  random number, whether a system call is refused, what the child process does) is an
  input of the model, the record \<open>env\<close>; what the handler does with it is translated
  line by line. Strings are lists of bytes.
\<close>

subsection \<open>Strings\<close>

definition digit_char :: "nat \<Rightarrow> char" where
  "digit_char d = ''0123456789'' ! d"

text \<open>A non-negative integer in a template literal: its decimal digits.\<close>

fun show_nat :: "nat \<Rightarrow> string" where
  "show_nat n =
     (if n < 10 then [digit_char n] else show_nat (n div 10) @ [digit_char (n mod 10)])"

declare show_nat.simps [simp del]

definition digit_val :: "char \<Rightarrow> nat" where
  "digit_val c = of_char c - 48"

definition read_nat :: "string \<Rightarrow> nat" where
  "read_nat s = foldl (\<lambda>a c. 10 * a + digit_val c) 0 s"

text \<open>\<^verbatim>\<open>s.substr(start, len)\<close>, \<^verbatim>\<open>s.startsWith(p)\<close>, \<^verbatim>\<open>s.endsWith(p)\<close> and
  \<^verbatim>\<open>s.includes(p)\<close>.\<close>

definition substr :: "string \<Rightarrow> nat \<Rightarrow> nat \<Rightarrow> string" where
  "substr s start len = take len (drop start s)"

definition startsWith :: "string \<Rightarrow> string \<Rightarrow> bool" where
  "startsWith s p = prefix p s"

definition endsWith :: "string \<Rightarrow> string \<Rightarrow> bool" where
  "endsWith s p = suffix p s"

fun includes_str :: "string \<Rightarrow> string \<Rightarrow> bool" where
  "includes_str [] p = (p = [])"
| "includes_str (c # cs) p = (prefix p (c # cs) \<or> includes_str cs p)"

definition unlines :: "string list \<Rightarrow> string" where
  "unlines ls = concat (map (\<lambda>l. l @ [CHR 0x0A]) ls)"

text \<open>\<^verbatim>\<open>buffer.toString('base64')\<close>: three bytes become four characters of the
  alphabet, the last group padded with \<^verbatim>\<open>=\<close>.\<close>

definition b64 :: "nat \<Rightarrow> char" where
  "b64 i = ''ABCDEFGHIJKLMNOPQRSTUVWXYZabcdefghijklmnopqrstuvwxyz0123456789+/'' ! i"

fun base64 :: "string \<Rightarrow> string" where
  "base64 [] = []"
| "base64 [a] =
     (let n = of_char a * 65536
      in [b64 (n div 262144), b64 (n div 4096 mod 64), CHR ''='', CHR ''=''])"
| "base64 [a, b] =
     (let n = of_char a * 65536 + of_char b * 256
      in [b64 (n div 262144), b64 (n div 4096 mod 64), b64 (n div 64 mod 64), CHR ''=''])"
| "base64 (a # b # c # rest) =
     (let n = of_char a * 65536 + of_char b * 256 + of_char c
      in [b64 (n div 262144), b64 (n div 4096 mod 64), b64 (n div 64 mod 64), b64 (n mod 64)]
         @ base64 rest)"

declare base64.simps [simp del]

subsection \<open>Paths and the file system\<close>

text \<open>
  An absolute path is the list of its components. \<^verbatim>\<open>path.join(dir, name)\<close> with a
  name of one component appends it; \<^verbatim>\<open>path.join(__dirname, '../../temp')\<close> drops two
  components (none at the root) and appends \<^verbatim>\<open>temp\<close>.
\<close>

type_synonym path = "string list"

definition path_join :: "path \<Rightarrow> string \<Rightarrow> path" where
  "path_join dir name = dir @ [name]"

definition path_str :: "path \<Rightarrow> string" where
  "path_str p = concat (map (\<lambda>c. CHR ''/'' # c) p)"

text \<open>
  The file system is the list of its entries, each a path with a regular file's bytes or
  a directory; the root is always there. The order of the list is the order in which a
  directory listing reports the entries, which the operating system chooses.
\<close>

datatype node = File string | Dir

type_synonym fs = "(path \<times> node) list"

datatype syscall = Mkdir path | WriteFile path | Readdir path | ReadFile path | Rm path

text \<open>What the child process of \<^verbatim>\<open>exec\<close> does: it exits with code 0 having written
  its two output streams, or \<^verbatim>\<open>exec\<close> reports an error (a non-zero exit code, a signal,
  a shell that cannot be spawned) with a message, or it never terminates. In the first
  two cases the file system is left as the child (and whatever ran meanwhile) made it.\<close>

datatype child = Exit0 string string fs | Failed string fs | Hangs

record env =
  dirname :: path  \<comment> \<open>\<^verbatim>\<open>__dirname\<close>\<close>
  now :: nat  \<comment> \<open>\<^verbatim>\<open>Date.now()\<close>\<close>
  random36 :: string  \<comment> \<open>\<^verbatim>\<open>Math.random().toString(36)\<close>\<close>
  fault :: "syscall \<Rightarrow> string option"
    \<comment> \<open>the system refuses the call (permissions, a full disk), with the error's message\<close>
  shell :: "string \<Rightarrow> fs \<Rightarrow> child"  \<comment> \<open>the shell run on a command line\<close>

definition sys_error :: "string \<Rightarrow> string \<Rightarrow> path \<Rightarrow> string" where
  "sys_error what call p = what @ '', '' @ call @ '' '' @ [CHR 0x27] @ path_str p @ [CHR 0x27]"

definition is_dir :: "fs \<Rightarrow> path \<Rightarrow> bool" where
  "is_dir fs p = (p = [] \<or> map_of fs p = Some Dir)"

definition existsSync :: "fs \<Rightarrow> path \<Rightarrow> bool" where
  "existsSync fs p = (p = [] \<or> map_of fs p \<noteq> None)"

text \<open>\<^verbatim>\<open>fs.mkdirSync(p, { recursive: true })\<close> creates the missing directories of the
  path, the outermost first, and accepts those that exist.\<close>

fun mkdirs :: "path \<Rightarrow> path list \<Rightarrow> fs \<Rightarrow> string + fs" where
  "mkdirs p [] fs = Inr fs"
| "mkdirs p (q # qs) fs =
     (case map_of fs q of
        None \<Rightarrow> mkdirs p qs (fs @ [(q, Dir)])
      | Some Dir \<Rightarrow> mkdirs p qs fs
      | Some (File _) \<Rightarrow>
          Inl (if qs = [] then sys_error ''EEXIST: file already exists'' ''mkdir'' p
               else sys_error ''ENOTDIR: not a directory'' ''mkdir'' p))"

definition mkdirSync :: "env \<Rightarrow> path \<Rightarrow> fs \<Rightarrow> string + fs" where
  "mkdirSync e p fs =
     (case fault e (Mkdir p) of
        Some m \<Rightarrow> Inl m
      | None \<Rightarrow> mkdirs p (tl (prefixes p)) fs)"

definition writeFileSync :: "env \<Rightarrow> path \<Rightarrow> string \<Rightarrow> fs \<Rightarrow> string + fs" where
  "writeFileSync e p data fs =
     (case fault e (WriteFile p) of
        Some m \<Rightarrow> Inl m
      | None \<Rightarrow>
          if is_dir fs (butlast p) then
            (case map_of fs p of
               None \<Rightarrow> Inr (fs @ [(p, File data)])
             | Some (File _) \<Rightarrow> Inr (map (\<lambda>(q, n). if q = p then (q, File data) else (q, n)) fs)
             | Some Dir \<Rightarrow> Inl (sys_error ''EISDIR: illegal operation on a directory'' ''open'' p))
          else Inl (sys_error ''ENOENT: no such file or directory'' ''open'' p))"

definition readdirSync :: "env \<Rightarrow> path \<Rightarrow> fs \<Rightarrow> string + string list" where
  "readdirSync e p fs =
     (case fault e (Readdir p) of
        Some m \<Rightarrow> Inl m
      | None \<Rightarrow>
          if is_dir fs p then
            Inr (map (\<lambda>(q, n). last q) (filter (\<lambda>(q, n). q \<noteq> [] \<and> butlast q = p) fs))
          else if existsSync fs p then Inl (sys_error ''ENOTDIR: not a directory'' ''scandir'' p)
          else Inl (sys_error ''ENOENT: no such file or directory'' ''scandir'' p))"

definition readFileSync :: "env \<Rightarrow> path \<Rightarrow> fs \<Rightarrow> string + string" where
  "readFileSync e p fs =
     (case fault e (ReadFile p) of
        Some m \<Rightarrow> Inl m
      | None \<Rightarrow>
          (case map_of fs p of
             Some (File bytes) \<Rightarrow> Inr bytes
           | Some Dir \<Rightarrow> Inl ''EISDIR: illegal operation on a directory, read''
           | None \<Rightarrow> Inl (sys_error ''ENOENT: no such file or directory'' ''open'' p)))"

text \<open>\<^verbatim>\<open>fs.rmSync(p, { recursive: true, force: true })\<close> removes the entry and all below
  it; a path that is not there is no error.\<close>

definition rmSync :: "path \<Rightarrow> fs \<Rightarrow> fs" where
  "rmSync p fs = filter (\<lambda>(q, n). \<not> prefix p q) fs"

subsection \<open>Requests, responses and promises\<close>

text \<open>The two fields of the request body are texts, and either may be absent.
  \<^verbatim>\<open>!x\<close> holds of an absent field and of the empty text.\<close>

record request =
  csvData :: "string option"
  pythonCode :: "string option"

fun falsy :: "string option \<Rightarrow> bool" where
  "falsy None = True"
| "falsy (Some s) = (s = [])"

fun text_of :: "string option \<Rightarrow> string" where
  "text_of None = []"
| "text_of (Some s) = s"

text \<open>The three shapes of \<^verbatim>\<open>res.json\<close>: status 400 with \<^verbatim>\<open>error\<close>; status 200
  with \<^verbatim>\<open>chartImages\<close>, \<^verbatim>\<open>chartsGenerated\<close>, \<^verbatim>\<open>message\<close> and \<^verbatim>\<open>stdout\<close>; status
  500 with \<^verbatim>\<open>error\<close>, \<^verbatim>\<open>details\<close> and \<^verbatim>\<open>suggestion\<close>.\<close>

datatype response =
    Status400 string
  | Status200 "string list" nat string string
  | Status500 string string string

fun status :: "response \<Rightarrow> nat" where
  "status (Status400 _) = 400"
| "status (Status200 _ _ _ _) = 200"
| "status (Status500 _ _ _) = 500"

datatype 'a promise = Resolved 'a | Rejected string | Pending

text \<open>What a stretch of the handler's \<^verbatim>\<open>try\<close> block comes to: a value, a thrown
  error (its message), or an \<^verbatim>\<open>await\<close> that is never resumed.\<close>

datatype 'a outcome = Return 'a | Throw string | Await

text \<open>The promisified \<^verbatim>\<open>exec\<close>: resolved with both streams when the child exits with
  code 0, rejected with the error otherwise, never settled while the child runs.\<close>

definition execAsync :: "env \<Rightarrow> string \<Rightarrow> fs \<Rightarrow> (string \<times> string) promise \<times> fs" where
  "execAsync e cmd fs =
     (case shell e cmd fs of
        Exit0 out err fs' \<Rightarrow> (Resolved (out, err), fs')
      | Failed m fs' \<Rightarrow> (Rejected m, fs')
      | Hangs \<Rightarrow> (Pending, fs))"

subsection \<open>The job directory and the composed script\<close>

definition tempDir :: "env \<Rightarrow> path" where
  "tempDir e = path_join (butlast (butlast (dirname e))) ''temp''"

definition jobId :: "nat \<Rightarrow> string \<Rightarrow> string" where
  "jobId t rnd = ''job_'' @ show_nat t @ ''_'' @ substr rnd 2 9"

definition jobDir :: "env \<Rightarrow> path" where
  "jobDir e = path_join (tempDir e) (jobId (now e) (random36 e))"

definition csvPath :: "env \<Rightarrow> path" where
  "csvPath e = path_join (jobDir e) ''data.csv''"

definition scriptPath :: "env \<Rightarrow> path" where
  "scriptPath e = path_join (jobDir e) ''script.py''"

definition prologue :: "string \<Rightarrow> string" where
  \<open>prologue csv_path = unlines
     ['''',
      ''import pandas as pd'',
      ''import matplotlib.pyplot as plt'',
      ''import seaborn as sns'',
      ''import numpy as np'',
      ''import os'',
      ''import warnings'',
      ''warnings.filterwarnings('ignore')'',
      '''',
      ''# Set matplotlib to use Agg backend (non-interactive)'',
      ''plt.switch_backend('Agg')'',
      '''',
      ''# Configure Seaborn for better visualizations'',
      ''sns.set_style("whitegrid")'',
      ''sns.set_palette("husl")'',
      ''plt.rcParams['figure.figsize'] = (10, 6)'',
      ''plt.rcParams['font.size'] = 12'',
      '''',
      ''# Load the data'',
      ''data = pd.read_csv('' @ [CHR 0x27] @ csv_path @ [CHR 0x27] @ '')'',
      '''']\<close>

definition epilogue :: string where
  \<open>epilogue = unlines
     ['''',
      '''',
      ''# Save all current figures'',
      ''fig_count = 0'',
      ''for i in plt.get_fignums():'',
      ''    fig = plt.figure(i)'',
      ''    fig.savefig(f'chart_{fig_count}.png', dpi=150, bbox_inches='tight', facecolor='white', edgecolor='none')'',
      ''    fig_count += 1'',
      ''    plt.close(fig)'',
      '''',
      ''print(f"Generated {fig_count} charts")'']\<close>

definition modifiedPythonCode :: "string \<Rightarrow> string \<Rightarrow> string" where
  "modifiedPythonCode csv_path code = prologue csv_path @ code @ epilogue"

definition command :: "env \<Rightarrow> string" where
  \<open>command e = ''cd "'' @ path_str (jobDir e) @ ''" && python3 script.py''\<close>

subsection \<open>The handler\<close>

text \<open>Lines 791 to 843: the temp directory when it is missing, the job directory, the
  data file and the script. The result is the message of the error thrown, if one is,
  and the file system with what was written before it.\<close>

definition prepare :: "env \<Rightarrow> string \<Rightarrow> string \<Rightarrow> fs \<Rightarrow> string option \<times> fs" where
  "prepare e csv code fs0 =
     (case (if existsSync fs0 (tempDir e) then Inr fs0 else mkdirSync e (tempDir e) fs0) of
        Inl m \<Rightarrow> (Some m, fs0)
      | Inr fs1 \<Rightarrow>
     (case mkdirSync e (jobDir e) fs1 of
        Inl m \<Rightarrow> (Some m, fs1)
      | Inr fs2 \<Rightarrow>
     (case writeFileSync e (csvPath e) csv fs2 of
        Inl m \<Rightarrow> (Some m, fs2)
      | Inr fs3 \<Rightarrow>
     (case writeFileSync e (scriptPath e)
             (modifiedPythonCode (path_str (csvPath e)) code) fs3 of
        Inl m \<Rightarrow> (Some m, fs3)
      | Inr fs4 \<Rightarrow> (None, fs4)))))"

text \<open>Lines 845 to 852: the interpreter is awaited, and its standard error decides.\<close>

definition run_script :: "env \<Rightarrow> fs \<Rightarrow> string outcome \<times> fs" where
  "run_script e fs =
     (case execAsync e (command e) fs of
        (Pending, fs') \<Rightarrow> (Await, fs')
      | (Rejected m, fs') \<Rightarrow> (Throw m, fs')
      | (Resolved (out, err), fs') \<Rightarrow>
          if err \<noteq> [] \<and> \<not> includes_str err ''Warning''
          then (Throw (''Python execution failed: '' @ err), fs')
          else (Return out, fs'))"

text \<open>Lines 857 to 867: the chart files of the job directory, in the order of its
  listing, each read and encoded.\<close>

definition chartFiles :: "string list \<Rightarrow> string list" where
  "chartFiles names =
     filter (\<lambda>file. startsWith file ''chart_'' \<and> endsWith file ''.png'') names"

definition data_uri :: "string \<Rightarrow> string" where
  "data_uri imageBuffer = ''data:image/png;base64,'' @ base64 imageBuffer"

fun chartImages :: "env \<Rightarrow> fs \<Rightarrow> string list \<Rightarrow> string + string list" where
  "chartImages e fs [] = Inr []"
| "chartImages e fs (file # rest) =
     (case readFileSync e (path_join (jobDir e) file) fs of
        Inl m \<Rightarrow> Inl m
      | Inr imageBuffer \<Rightarrow>
          (case chartImages e fs rest of
             Inl m \<Rightarrow> Inl m
           | Inr images \<Rightarrow> Inr (data_uri imageBuffer # images)))"

definition collect :: "env \<Rightarrow> fs \<Rightarrow> string + string list" where
  "collect e fs =
     (case readdirSync e (jobDir e) fs of
        Inl m \<Rightarrow> Inl m
      | Inr names \<Rightarrow> chartImages e fs (chartFiles names))"

text \<open>The state the handler works on: the file system and the timers that
  \<^verbatim>\<open>setTimeout\<close> has registered, each the directory its callback removes and its
  delay in milliseconds.\<close>

record world =
  files :: fs
  timers :: "(path \<times> nat) list"

definition try_block :: "env \<Rightarrow> request \<Rightarrow> world \<Rightarrow> response outcome \<times> world" where
  "try_block e req w =
     (if falsy (csvData req) \<or> falsy (pythonCode req)
      then (Return (Status400 ''csvData and pythonCode are required''), w)
      else
        (case prepare e (text_of (csvData req)) (text_of (pythonCode req)) (files w) of
           (Some m, fs) \<Rightarrow> (Throw m, w\<lparr>files := fs\<rparr>)
         | (None, fs) \<Rightarrow>
        (case run_script e fs of
           (Throw m, fs') \<Rightarrow> (Throw m, w\<lparr>files := fs'\<rparr>)
         | (Await, fs') \<Rightarrow> (Await, w\<lparr>files := fs'\<rparr>)
         | (Return out, fs') \<Rightarrow>
        (case collect e fs' of
           Inl m \<Rightarrow> (Throw m, w\<lparr>files := fs'\<rparr>)
         | Inr images \<Rightarrow>
             (Return
                (Status200 images (length images)
                   (''Successfully generated '' @ show_nat (length images) @ '' charts'') out),
              w\<lparr>files := fs', timers := timers w @ [(jobDir e, 5000)]\<rparr>)))))"

text \<open>The whole handler, lines 784 to 893: the \<^verbatim>\<open>catch\<close> block answers every thrown
  error with status 500 and the error's message as \<^verbatim>\<open>details\<close>. The result is the
  response, if one is sent, and the state the handler leaves.\<close>

definition server_error :: "string \<Rightarrow> response" where
  "server_error m =
     Status500 ''Failed to execute Python code'' m
       ''Make sure Python is installed with pandas, matplotlib, and seaborn''"

definition execute_python :: "env \<Rightarrow> request \<Rightarrow> world \<Rightarrow> response option \<times> world" where
  "execute_python e req w =
     (case try_block e req w of
        (Return r, w') \<Rightarrow> (Some r, w')
      | (Throw m, w') \<Rightarrow> (Some (server_error m), w')
      | (Await, w') \<Rightarrow> (None, w'))"

text \<open>The callback of the timer (lines 870 to 876): the removal of the job directory,
  a failure of which is logged and changes nothing. \<open>grace_period\<close> lets every
  registered timer fire.\<close>

definition cleanup :: "env \<Rightarrow> path \<Rightarrow> fs \<Rightarrow> fs" where
  "cleanup e dir fs = (case fault e (Rm dir) of Some m \<Rightarrow> fs | None \<Rightarrow> rmSync dir fs)"

definition grace_period :: "env \<Rightarrow> world \<Rightarrow> world" where
  "grace_period e w =
     \<lparr>files = foldl (\<lambda>fs (dir, delay). cleanup e dir fs) (files w) (timers w), timers = []\<rparr>"

subsection \<open>The epilogue of the composed script\<close>

text \<open>
  The last lines of the script (lines 830 to 838 of the source) are Python:
  \<^verbatim>\<open>
  fig_count = 0
  for i in plt.get_fignums():
      fig = plt.figure(i)
      fig.savefig(f'chart_{fig_count}.png', ...)
      fig_count += 1
      plt.close(fig)
  print(f"Generated {fig_count} charts")
  \<close>
  They run on the state the code fragment has left in matplotlib: the open figures, each
  under its figure number, kept in the order in which they were created. A figure is taken
  for the image that \<^verbatim>\<open>savefig\<close> renders of it. \<^verbatim>\<open>plt.get_fignums()\<close> is matplotlib's:
  the numbers of the open figures in ascending order. \<^verbatim>\<open>plt.figure(i)\<close> is the open
  figure of number \<open>i\<close>, and a new, empty one when there is none.
\<close>

type_synonym figure = string

record pyplot =
  figs :: "(nat \<times> figure) list"
  cwd :: "string \<rightharpoonup> figure"  \<comment> \<open>the image files of the working directory\<close>
  printed :: "string list"

definition get_fignums :: "pyplot \<Rightarrow> nat list" where
  "get_fignums st = sort (map fst (figs st))"

definition plt_figure :: "nat \<Rightarrow> pyplot \<Rightarrow> figure \<times> pyplot" where
  "plt_figure i st =
     (case map_of (figs st) i of
        Some fig \<Rightarrow> (fig, st)
      | None \<Rightarrow> ([], st\<lparr>figs := figs st @ [(i, [])]\<rparr>))"

definition savefig :: "string \<Rightarrow> figure \<Rightarrow> pyplot \<Rightarrow> pyplot" where
  "savefig name fig st = st\<lparr>cwd := (cwd st)(name \<mapsto> fig)\<rparr>"

definition plt_close :: "nat \<Rightarrow> pyplot \<Rightarrow> pyplot" where
  "plt_close i st = st\<lparr>figs := filter (\<lambda>(n, fig). n \<noteq> i) (figs st)\<rparr>"

definition chart_name :: "nat \<Rightarrow> string" where
  "chart_name k = ''chart_'' @ show_nat k @ ''.png''"

fun save_figures :: "nat list \<Rightarrow> nat \<Rightarrow> pyplot \<Rightarrow> nat \<times> pyplot" where
  "save_figures [] fig_count st = (fig_count, st)"
| "save_figures (i # nums) fig_count st =
     (case plt_figure i st of
        (fig, st1) \<Rightarrow>
          save_figures nums (fig_count + 1)
            (plt_close i (savefig (chart_name fig_count) fig st1)))"

definition run_epilogue :: "pyplot \<Rightarrow> pyplot" where
  "run_epilogue st =
     (case save_figures (get_fignums st) 0 st of
        (fig_count, st') \<Rightarrow>
          st'\<lparr>printed := printed st' @ [''Generated '' @ show_nat fig_count @ '' charts'']\<rparr>)"

text \<open>What the files \<^verbatim>\<open>chart_0.png\<close> to \<^verbatim>\<open>chart_(n-1).png\<close> hold.\<close>

definition saved_charts :: "pyplot \<Rightarrow> nat \<Rightarrow> figure option list" where
  "saved_charts st n = map (\<lambda>k. cwd st (chart_name k)) [0..<n]"

subsection \<open>The specification's reading of artifact collection\<close>

text \<open>
  The specification has the collector sort the artifact files by the number embedded in
  their names before it reads them. \<open>artifact_index\<close> is that number, the digits between
  \<^verbatim>\<open>chart_\<close> and \<^verbatim>\<open>.png\<close>; \<open>collectArtifacts_spec\<close> follows the specification's words,
  to be compared with \<open>collect\<close>, which follows the source.
\<close>

definition artifact_index :: "string \<Rightarrow> nat" where
  "artifact_index file = read_nat (substr file 6 (length file - 10))"

definition collectArtifacts_spec :: "env \<Rightarrow> fs \<Rightarrow> string + string list" where
  "collectArtifacts_spec e fs =
     (case readdirSync e (jobDir e) fs of
        Inl m \<Rightarrow> Inl m
      | Inr names \<Rightarrow> chartImages e fs (sort_key artifact_index (chartFiles names)))"

subsection \<open>The messages of the runtime's errors and the kinds of failure\<close>









subsection \<open>Concrete runs\<close>

text \<open>
  A server whose router is compiled to \<^verbatim>\<open>/srv/app/backend/routers\<close>, at one reading of
  the clock and of the random number generator, with no system call refused; what the
  interpreter does is left open. The temp directory does not exist yet.
\<close>

definition example_env :: "(string \<Rightarrow> fs \<Rightarrow> child) \<Rightarrow> env" where
  "example_env sh =
     \<lparr>dirname = [''srv'', ''app'', ''backend'', ''routers''], now = 1730631234567,
      random36 = ''0.4fzyo82mvyr'', fault = (\<lambda>call. None), shell = sh\<rparr>"

definition example_world :: world where
  "example_world = \<lparr>files = [([''srv''], Dir), ([''srv'', ''app''], Dir)], timers = []\<rparr>"

definition example_request :: request where
  "example_request = \<lparr>csvData = Some ''a,b'', pythonCode = Some ''plt.plot(data.a)''\<rparr>"

definition example_job :: path where
  "example_job = [''srv'', ''app'', ''temp'', ''job_1730631234567_4fzyo82mv'']"

text \<open>The file system once the handler has written the data file and the script.\<close>

definition prepared :: fs where
  "prepared =
     [([''srv''], Dir), ([''srv'', ''app''], Dir), ([''srv'', ''app'', ''temp''], Dir),
      (example_job, Dir),
      (example_job @ [''data.csv''], File ''a,b''),
      (example_job @ [''script.py''],
       File (modifiedPythonCode (path_str (example_job @ [''data.csv''])) ''plt.plot(data.a)''))]"

text \<open>The file system with the workspace of the example request and that of another
  request, which holds a chart.\<close>

definition other_job :: path where
  "other_job = [''srv'', ''app'', ''temp'', ''job_1730631234568_9k2m4x7qp'']"

definition two_jobs :: fs where
  "two_jobs = prepared @ [(other_job, Dir), (other_job @ [''chart_0.png''], File ''fig0'')]"

text \<open>Interpreters: one whose script raises, so that \<^verbatim>\<open>exec\<close> reports the non-zero exit
  code; one that never terminates; one that exits with code 0 after a note on standard
  error; one that exits with code 0 and draws nothing; one that exits with code 0 and
  leaves eleven charts, which the directory lists in the lexical order of their names.\<close>

definition raising :: "string \<Rightarrow> fs \<Rightarrow> child" where
  "raising cmd fs = Failed ''Command failed: python3 script.py'' fs"

definition hanging :: "string \<Rightarrow> fs \<Rightarrow> child" where
  "hanging cmd fs = Hangs"

definition noting :: "string \<Rightarrow> fs \<Rightarrow> child" where
  "noting cmd fs = Exit0 ''Generated 0 charts'' ''Note: using default style'' fs"

definition drawing_nothing :: "string \<Rightarrow> fs \<Rightarrow> child" where
  "drawing_nothing cmd fs = Exit0 ''Generated 0 charts'' [] fs"

definition eleven_charts :: fs where
  "eleven_charts =
     map (\<lambda>(name, bytes). (example_job @ [name], File bytes))
       [(''chart_0.png'', ''fig0''), (''chart_1.png'', ''fig1''), (''chart_10.png'', ''fig10''),
        (''chart_2.png'', ''fig2''), (''chart_3.png'', ''fig3''), (''chart_4.png'', ''fig4''),
        (''chart_5.png'', ''fig5''), (''chart_6.png'', ''fig6''), (''chart_7.png'', ''fig7''),
        (''chart_8.png'', ''fig8''), (''chart_9.png'', ''fig9'')]"

definition drawing_eleven :: "string \<Rightarrow> fs \<Rightarrow> child" where
  "drawing_eleven cmd fs = Exit0 ''Generated 11 charts'' [] (fs @ eleven_charts)"


text \<open>A second request in the same millisecond, whose random number differs from the
  first one's after its eleventh character.\<close>

definition second_env :: "(string \<Rightarrow> fs \<Rightarrow> child) \<Rightarrow> env" where
  "second_env sh = (example_env sh)\<lparr>random36 := ''0.4fzyo82mvzz''\<rparr>"

text \<open>The file system once the second request has written its data and its script into
  the directory of the first.\<close>

definition shared_workspace :: fs where
  "shared_workspace =
     [([''srv''], Dir), ([''srv'', ''app''], Dir), ([''srv'', ''app'', ''temp''], Dir),
      (example_job, Dir),
      (example_job @ [''data.csv''], File ''x,y''),
      (example_job @ [''script.py''],
       File (modifiedPythonCode (path_str (example_job @ [''data.csv''])) ''plt.plot(data.x)''))]"

text \<open>Two figures, the one numbered 2 created before the one numbered 1, as by
  \<^verbatim>\<open>plt.figure(2)\<close> followed by \<^verbatim>\<open>plt.figure(1)\<close>; and two figures numbered as
  matplotlib numbers them by itself.\<close>

definition explicit_numbers :: pyplot where
  "explicit_numbers = \<lparr>figs = [(2, ''bars''), (1, ''lines'')], cwd = Map.empty, printed = []\<rparr>"

definition automatic_numbers :: pyplot where
  "automatic_numbers = \<lparr>figs = [(1, ''bars''), (3, ''lines'')], cwd = Map.empty, printed = []\<rparr>"

section \<open>Properties\<close>

subsection \<open>Decimal digits and job identifiers\<close>

lemma digit_val_digit_char: "d < 10 \<Longrightarrow> digit_val (digit_char d) = d"
proof -
  assume "d < 10"
  then have "d \<in> {0, 1, 2, 3, 4, 5, 6, 7, 8, 9}" by auto
  then show ?thesis by (auto simp: digit_val_def digit_char_def)
qed

lemma digit_char_not_underscore: "d < 10 \<Longrightarrow> CHR ''_'' \<noteq> digit_char d"
proof -
  assume "d < 10"
  then have "d \<in> {0, 1, 2, 3, 4, 5, 6, 7, 8, 9}" by auto
  then show ?thesis by (auto simp: digit_char_def)
qed

lemma read_show_nat: "read_nat (show_nat n) = n"
proof (induction n rule: show_nat.induct)
  case (1 n)
  show ?case
  proof (cases "n < 10")
    case True
    then show ?thesis
      by (subst show_nat.simps) (simp add: read_nat_def digit_val_digit_char)
  next
    case False
    with 1 have "read_nat (show_nat (n div 10)) = n div 10" by simp
    with False show ?thesis
      by (subst show_nat.simps) (simp add: read_nat_def digit_val_digit_char)
  qed
qed

lemma show_nat_inj: "show_nat a = show_nat b \<Longrightarrow> a = b"
  by (metis read_show_nat)

lemma show_nat_no_underscore: "CHR ''_'' \<notin> set (show_nat n)"
proof (induction n rule: show_nat.induct)
  case (1 n)
  show ?case
  proof (cases "n < 10")
    case True
    then show ?thesis
      by (subst show_nat.simps) (simp add: digit_char_not_underscore)
  next
    case False
    with 1 have "CHR ''_'' \<notin> set (show_nat (n div 10))" by simp
    with False show ?thesis
      by (subst show_nat.simps) (simp add: digit_char_not_underscore)
  qed
qed

text \<open>Two texts with the same separator, which the parts before it do not contain, are
  equal only when their parts are.\<close>

lemma split_at_separator:
  assumes "a @ c # x = b @ c # y" and "c \<notin> set a" and "c \<notin> set b"
  shows "a = b \<and> x = y"
  using assms
proof (induction a arbitrary: b)
  case Nil
  then show ?case by (cases b) auto
next
  case (Cons h a)
  then show ?case by (cases b) auto
qed

lemma jobId_eq_iff:
  "jobId t1 r1 = jobId t2 r2 \<longleftrightarrow> t1 = t2 \<and> substr r1 2 9 = substr r2 2 9"
proof
  assume "jobId t1 r1 = jobId t2 r2"
  then have "show_nat t1 @ CHR ''_'' # substr r1 2 9 = show_nat t2 @ CHR ''_'' # substr r2 2 9"
    by (simp add: jobId_def)
  then have "show_nat t1 = show_nat t2 \<and> substr r1 2 9 = substr r2 2 9"
    by (rule split_at_separator) (rule show_nat_no_underscore)+
  then show "t1 = t2 \<and> substr r1 2 9 = substr r2 2 9"
    by (auto dest: show_nat_inj)
next
  assume "t1 = t2 \<and> substr r1 2 9 = substr r2 2 9"
  then show "jobId t1 r1 = jobId t2 r2" by (simp add: jobId_def)
qed

subsection \<open>The concrete runs, evaluated\<close>

lemma example_env_fields:
  "dirname (example_env sh) = [''srv'', ''app'', ''backend'', ''routers'']"
  "now (example_env sh) = 1730631234567"
  "random36 (example_env sh) = ''0.4fzyo82mvyr''"
  "fault (example_env sh) call = None"
  "shell (example_env sh) = sh"
  by (simp_all add: example_env_def)

lemma example_world_fields:
  "files example_world = [([''srv''], Dir), ([''srv'', ''app''], Dir)]"
  "timers example_world = []"
  by (simp_all add: example_world_def)

lemma example_request_fields:
  "csvData example_request = Some ''a,b''"
  "pythonCode example_request = Some ''plt.plot(data.a)''"
  by (simp_all add: example_request_def)

lemma example_tempDir: "tempDir (example_env sh) = [''srv'', ''app'', ''temp'']"
  by (simp add: tempDir_def example_env_fields path_join_def)

lemma example_jobId: "jobId 1730631234567 ''0.4fzyo82mvyr'' = ''job_1730631234567_4fzyo82mv''"
  by (simp add: jobId_def substr_def show_nat.simps digit_char_def)

lemma example_jobDir: "jobDir (example_env sh) = example_job"
  by (simp add: jobDir_def example_tempDir example_jobId example_env_fields path_join_def
      example_job_def)

lemma example_prepare:
  "prepare (example_env sh) ''a,b'' ''plt.plot(data.a)'' (files example_world) = (None, prepared)"
  by (simp add: prepare_def csvPath_def scriptPath_def example_jobDir example_tempDir
      path_join_def mkdirSync_def writeFileSync_def existsSync_def is_dir_def
      example_world_fields example_env_fields prepared_def example_job_def)

lemma example_listing:
  "readdirSync (example_env sh) example_job prepared = Inr [''data.csv'', ''script.py'']"
  by (simp add: readdirSync_def example_env_fields is_dir_def prepared_def example_job_def)

subsection \<open>Collection of the chart files\<close>

lemma chartImages_reads:
  "map (\<lambda>file. readFileSync e (path_join (jobDir e) file) fs) names = map Inr buffers \<Longrightarrow>
   chartImages e fs names = Inr (map data_uri buffers)"
proof (induction names arbitrary: buffers)
  case Nil
  then show ?case by simp
next
  case (Cons name names)
  then obtain b bs where "buffers = b # bs" by (cases buffers) auto
  with Cons show ?case by simp
qed

lemma eleven_listing:
  "readdirSync (example_env sh) example_job (prepared @ eleven_charts) =
     Inr [''data.csv'', ''script.py'', ''chart_0.png'', ''chart_1.png'', ''chart_10.png'',
          ''chart_2.png'', ''chart_3.png'', ''chart_4.png'', ''chart_5.png'', ''chart_6.png'',
          ''chart_7.png'', ''chart_8.png'', ''chart_9.png'']"
  by (simp add: readdirSync_def example_env_fields is_dir_def prepared_def eleven_charts_def
      example_job_def)

lemma eleven_chartFiles:
  "chartFiles [''data.csv'', ''script.py'', ''chart_0.png'', ''chart_1.png'', ''chart_10.png'',
          ''chart_2.png'', ''chart_3.png'', ''chart_4.png'', ''chart_5.png'', ''chart_6.png'',
          ''chart_7.png'', ''chart_8.png'', ''chart_9.png''] =
     [''chart_0.png'', ''chart_1.png'', ''chart_10.png'',
          ''chart_2.png'', ''chart_3.png'', ''chart_4.png'', ''chart_5.png'', ''chart_6.png'',
          ''chart_7.png'', ''chart_8.png'', ''chart_9.png'']"
  by (simp add: chartFiles_def startsWith_def endsWith_def suffix_to_prefix)

lemma eleven_reads:
  "map (\<lambda>file. readFileSync (example_env sh) (path_join (jobDir (example_env sh)) file)
          (prepared @ eleven_charts))
     [''chart_0.png'', ''chart_1.png'', ''chart_10.png'',
          ''chart_2.png'', ''chart_3.png'', ''chart_4.png'', ''chart_5.png'', ''chart_6.png'',
          ''chart_7.png'', ''chart_8.png'', ''chart_9.png''] =
   map Inr [''fig0'', ''fig1'', ''fig10'', ''fig2'', ''fig3'', ''fig4'', ''fig5'', ''fig6'',
            ''fig7'', ''fig8'', ''fig9'']"
  by (simp add: readFileSync_def example_env_fields example_jobDir path_join_def prepared_def
      eleven_charts_def example_job_def)

lemma eleven_sorted:
  "sort_key artifact_index
     [''chart_0.png'', ''chart_1.png'', ''chart_10.png'',
          ''chart_2.png'', ''chart_3.png'', ''chart_4.png'', ''chart_5.png'', ''chart_6.png'',
          ''chart_7.png'', ''chart_8.png'', ''chart_9.png''] =
     [''chart_0.png'', ''chart_1.png'', ''chart_2.png'', ''chart_3.png'', ''chart_4.png'',
      ''chart_5.png'', ''chart_6.png'', ''chart_7.png'', ''chart_8.png'', ''chart_9.png'',
      ''chart_10.png'']"
  by (simp add: artifact_index_def read_nat_def substr_def digit_val_def)

lemma eleven_reads_sorted:
  "map (\<lambda>file. readFileSync (example_env sh) (path_join (jobDir (example_env sh)) file)
          (prepared @ eleven_charts))
     [''chart_0.png'', ''chart_1.png'', ''chart_2.png'', ''chart_3.png'', ''chart_4.png'',
      ''chart_5.png'', ''chart_6.png'', ''chart_7.png'', ''chart_8.png'', ''chart_9.png'',
      ''chart_10.png''] =
   map Inr [''fig0'', ''fig1'', ''fig2'', ''fig3'', ''fig4'', ''fig5'', ''fig6'',
            ''fig7'', ''fig8'', ''fig9'', ''fig10'']"
  by (simp add: readFileSync_def example_env_fields example_jobDir path_join_def prepared_def
      eleven_charts_def example_job_def)

lemma data_uri_fig10: "data_uri ''fig10'' = ''data:image/png;base64,ZmlnMTA=''"
  by (simp add: data_uri_def base64.simps b64_def)

lemma data_uri_fig2: "data_uri ''fig2'' = ''data:image/png;base64,ZmlnMg==''"
  by (simp add: data_uri_def base64.simps b64_def)

text \<open>A run that passes every step: the response and the state it leaves.\<close>

lemma handler_success:
  assumes "\<not> falsy (csvData req)" "\<not> falsy (pythonCode req)"
    and "prepare e (text_of (csvData req)) (text_of (pythonCode req)) (files w) = (None, fs)"
    and "shell e (command e) fs = Exit0 out err fs'"
    and "err = [] \<or> includes_str err ''Warning''"
    and "collect e fs' = Inr images"
  shows "execute_python e req w =
     (Some (Status200 images (length images)
        (''Successfully generated '' @ show_nat (length images) @ '' charts'') out),
      w\<lparr>files := fs', timers := timers w @ [(jobDir e, 5000)]\<rparr>)"
  using assms
  by (auto simp: execute_python_def try_block_def run_script_def execAsync_def)

text \<open>
  C1, as the code has it. When the listing of the job directory is \<open>names\<close> and every
  chart file among them can be read, \<open>collect\<close> returns one artifact for each chart file
  of the listing, in the order of the listing: the encoded bytes of the files
  \<open>chartFiles names\<close>, which is \<open>names\<close> with the other entries left out. No sorting by
  the number in the file name takes place.
\<close>

theorem collect_in_listing_order:
  assumes "readdirSync e (jobDir e) fs = Inr names"
    and "map (\<lambda>file. readFileSync e (path_join (jobDir e) file) fs) (chartFiles names)
           = map Inr buffers"
  shows "collect e fs = Inr (map data_uri buffers)
       \<and> length buffers = length (chartFiles names)
       \<and> subseq (chartFiles names) names"
proof (intro conjI)
  show "collect e fs = Inr (map data_uri buffers)"
    using assms by (simp add: collect_def chartImages_reads)
  show "length buffers = length (chartFiles names)"
    using assms(2) by (metis length_map)
  show "subseq (chartFiles names) names"
    by (simp add: chartFiles_def)
qed

theorem collect_in_listing_order_witness:
  "collect (example_env drawing_eleven) (prepared @ eleven_charts) =
     Inr (map data_uri [''fig0'', ''fig1'', ''fig10'', ''fig2'', ''fig3'', ''fig4'', ''fig5'',
                        ''fig6'', ''fig7'', ''fig8'', ''fig9''])"
proof -
  let ?e = "example_env drawing_eleven"
  let ?names = "[''data.csv'', ''script.py'', ''chart_0.png'', ''chart_1.png'', ''chart_10.png'',
          ''chart_2.png'', ''chart_3.png'', ''chart_4.png'', ''chart_5.png'', ''chart_6.png'',
          ''chart_7.png'', ''chart_8.png'', ''chart_9.png'']"
  have l: "readdirSync ?e (jobDir ?e) (prepared @ eleven_charts) = Inr ?names"
    by (simp only: example_jobDir eleven_listing)
  have r: "map (\<lambda>file. readFileSync ?e (path_join (jobDir ?e) file) (prepared @ eleven_charts))
             (chartFiles ?names)
           = map Inr [''fig0'', ''fig1'', ''fig10'', ''fig2'', ''fig3'', ''fig4'', ''fig5'',
                      ''fig6'', ''fig7'', ''fig8'', ''fig9'']"
    unfolding eleven_chartFiles by (rule eleven_reads)
  from collect_in_listing_order [OF l r] show ?thesis by (rule conjunct1)
qed

text \<open>The claim as stated fails where the interpreter has left eleven charts and the
  directory lists them by name: the handler returns the chart numbered 10 third, while
  the collection by embedded number returns it last.\<close>

theorem collect_not_by_index:
  "fst (execute_python (example_env drawing_eleven) example_request example_world) =
     Some (Status200
       (map data_uri [''fig0'', ''fig1'', ''fig10'', ''fig2'', ''fig3'', ''fig4'', ''fig5'',
                      ''fig6'', ''fig7'', ''fig8'', ''fig9''])
       11 ''Successfully generated 11 charts'' ''Generated 11 charts'')
   \<and> collectArtifacts_spec (example_env drawing_eleven) (prepared @ eleven_charts) =
       Inr (map data_uri [''fig0'', ''fig1'', ''fig2'', ''fig3'', ''fig4'', ''fig5'',
                          ''fig6'', ''fig7'', ''fig8'', ''fig9'', ''fig10''])
   \<and> collect (example_env drawing_eleven) (prepared @ eleven_charts)
       \<noteq> collectArtifacts_spec (example_env drawing_eleven) (prepared @ eleven_charts)"
proof -
  let ?e = "example_env drawing_eleven"
  have c: "collect ?e (prepared @ eleven_charts) =
     Inr (map data_uri [''fig0'', ''fig1'', ''fig10'', ''fig2'', ''fig3'', ''fig4'', ''fig5'',
                        ''fig6'', ''fig7'', ''fig8'', ''fig9''])"
    unfolding collect_def example_jobDir eleven_listing sum.case eleven_chartFiles
    by (rule chartImages_reads [OF eleven_reads])
  have s: "collectArtifacts_spec ?e (prepared @ eleven_charts) =
     Inr (map data_uri [''fig0'', ''fig1'', ''fig2'', ''fig3'', ''fig4'', ''fig5'',
                        ''fig6'', ''fig7'', ''fig8'', ''fig9'', ''fig10''])"
    unfolding collectArtifacts_spec_def example_jobDir eleven_listing sum.case
      eleven_chartFiles eleven_sorted
    by (rule chartImages_reads [OF eleven_reads_sorted])
  have n: "length (map data_uri [''fig0'', ''fig1'', ''fig10'', ''fig2'', ''fig3'', ''fig4'',
             ''fig5'', ''fig6'', ''fig7'', ''fig8'', ''fig9'']) = 11"
    by simp
  have m: "''Successfully generated '' @ show_nat 11 @ '' charts''
         = ''Successfully generated 11 charts''"
    by (simp add: show_nat.simps digit_char_def)
  have "execute_python ?e example_request example_world =
     (Some (Status200
        (map data_uri [''fig0'', ''fig1'', ''fig10'', ''fig2'', ''fig3'', ''fig4'', ''fig5'',
                       ''fig6'', ''fig7'', ''fig8'', ''fig9''])
        (length (map data_uri [''fig0'', ''fig1'', ''fig10'', ''fig2'', ''fig3'', ''fig4'',
             ''fig5'', ''fig6'', ''fig7'', ''fig8'', ''fig9'']))
        (''Successfully generated '' @ show_nat (length (map data_uri [''fig0'', ''fig1'',
             ''fig10'', ''fig2'', ''fig3'', ''fig4'', ''fig5'', ''fig6'', ''fig7'', ''fig8'',
             ''fig9''])) @ '' charts'')
        ''Generated 11 charts''),
      example_world\<lparr>files := prepared @ eleven_charts,
        timers := timers example_world @ [(jobDir ?e, 5000)]\<rparr>)"
  proof (rule handler_success)
    show "\<not> falsy (csvData example_request)" "\<not> falsy (pythonCode example_request)"
      by (simp_all add: example_request_fields)
    show "prepare ?e (text_of (csvData example_request)) (text_of (pythonCode example_request))
            (files example_world) = (None, prepared)"
      by (simp add: example_request_fields example_prepare)
    show "shell ?e (command ?e) prepared = Exit0 ''Generated 11 charts'' [] (prepared @ eleven_charts)"
      by (simp add: example_env_fields drawing_eleven_def)
    show "[] = [] \<or> includes_str [] ''Warning''" by simp
    show "collect ?e (prepared @ eleven_charts) =
       Inr (map data_uri [''fig0'', ''fig1'', ''fig10'', ''fig2'', ''fig3'', ''fig4'', ''fig5'',
                          ''fig6'', ''fig7'', ''fig8'', ''fig9''])"
      by (rule c)
  qed
  then have r: "fst (execute_python ?e example_request example_world) =
     Some (Status200
       (map data_uri [''fig0'', ''fig1'', ''fig10'', ''fig2'', ''fig3'', ''fig4'', ''fig5'',
                      ''fig6'', ''fig7'', ''fig8'', ''fig9''])
       11 ''Successfully generated 11 charts'' ''Generated 11 charts'')"
    unfolding n m by simp
  have d: "collect ?e (prepared @ eleven_charts) \<noteq> collectArtifacts_spec ?e (prepared @ eleven_charts)"
    unfolding c s by (simp add: data_uri_fig10 data_uri_fig2)
  from r s d show ?thesis by simp
qed

subsection \<open>Cleanup after a failed run\<close>

text \<open>A timer is registered with the response of status 200 and with no other.\<close>

lemma cleanup_scheduled_only_with_status_200:
  "timers (snd (execute_python e req w)) =
     (case fst (execute_python e req w) of
        Some (Status200 images n msg out) \<Rightarrow> timers w @ [(jobDir e, 5000)]
      | _ \<Rightarrow> timers w)"
  by (auto simp: execute_python_def try_block_def server_error_def
      split: prod.splits option.splits outcome.splits sum.splits)

lemma raising_run:
  "execute_python (example_env raising) example_request example_world =
     (Some (server_error ''Command failed: python3 script.py''),
      example_world\<lparr>files := prepared\<rparr>)"
  by (simp add: execute_python_def try_block_def example_request_fields example_prepare
      run_script_def execAsync_def example_env_fields raising_def)

text \<open>
  C2 asks that the cleanup of the job directory be scheduled on every exit path. The code
  registers the timer on the path of success only (line 870), not in the \<^verbatim>\<open>catch\<close>
  block: here the script raises, the request is answered with status 500, no timer is
  registered, and the job directory is still there when every timer has fired.
\<close>

theorem failed_run_keeps_job_directory:
  "fst (execute_python (example_env raising) example_request example_world)
     = Some (server_error ''Command failed: python3 script.py'')
   \<and> timers (snd (execute_python (example_env raising) example_request example_world)) = []
   \<and> existsSync
        (files (grace_period (example_env raising)
           (snd (execute_python (example_env raising) example_request example_world))))
        (jobDir (example_env raising))"
  by (simp add: raising_run grace_period_def example_world_fields existsSync_def
      example_jobDir prepared_def example_job_def)

subsection \<open>No bound on the run of the interpreter\<close>

text \<open>
  C3, as the code has it. \<^verbatim>\<open>execAsync\<close> is called without a time limit (line 847), so
  the handler waits for the child as long as the child runs: no response is sent exactly
  when the request passes validation, the workspace is written and the child never
  terminates. In every other case a response is sent; none reports a timeout.
\<close>

theorem no_response_iff_child_hangs:
  "fst (execute_python e req w) = None \<longleftrightarrow>
     (\<not> falsy (csvData req) \<and> \<not> falsy (pythonCode req)
      \<and> fst (prepare e (text_of (csvData req)) (text_of (pythonCode req)) (files w)) = None
      \<and> shell e (command e)
           (snd (prepare e (text_of (csvData req)) (text_of (pythonCode req)) (files w)))
          = Hangs)"
  by (auto simp: execute_python_def try_block_def run_script_def execAsync_def
      split: prod.splits option.splits outcome.splits sum.splits child.splits if_splits)

theorem no_response_iff_child_hangs_witness:
  "fst (execute_python (example_env hanging) example_request example_world) = None"
  using no_response_iff_child_hangs [of "example_env hanging" example_request example_world]
  by (simp add: example_request_fields example_prepare example_env_fields hanging_def)

text \<open>The claim as stated fails for a child that never terminates: the caller is told
  nothing, and the handler leaves the workspace as it was written, with no timer.\<close>

theorem hanging_child_no_timeout:
  "execute_python (example_env hanging) example_request example_world
     = (None, example_world\<lparr>files := prepared\<rparr>)"
  by (simp add: execute_python_def try_block_def example_request_fields example_prepare
      run_script_def execAsync_def example_env_fields hanging_def)

subsection \<open>The results of failures\<close>




















subsection \<open>Standard error decides\<close>

text \<open>
  C5, as the code has it. When the interpreter exits with code 0 the run goes on to the
  collection of the charts exactly when its standard error is empty or contains
  \<^verbatim>\<open>Warning\<close>; any other text on standard error makes the handler throw, although the
  exit code is 0.
\<close>

theorem stderr_decides:
  "shell e (command e) fs = Exit0 out err fs' \<Longrightarrow>
   run_script e fs =
     (if err = [] \<or> includes_str err ''Warning'' then (Return out, fs')
      else (Throw (''Python execution failed: '' @ err), fs'))"
  by (simp add: run_script_def execAsync_def)

theorem stderr_decides_witness:
  "run_script
     (example_env (\<lambda>cmd fs. Exit0 ''Generated 1 charts'' ''UserWarning: tight layout'' fs))
     prepared
   = (Return ''Generated 1 charts'', prepared)"
proof -
  have "shell (example_env (\<lambda>cmd fs. Exit0 ''Generated 1 charts'' ''UserWarning: tight layout'' fs))
          (command (example_env (\<lambda>cmd fs. Exit0 ''Generated 1 charts''
             ''UserWarning: tight layout'' fs))) prepared
        = Exit0 ''Generated 1 charts'' ''UserWarning: tight layout'' prepared"
    by (simp add: example_env_fields)
  from stderr_decides [OF this] show ?thesis by simp
qed

text \<open>The claim as stated fails for an interpreter that exits with code 0 after a note
  on standard error that does not contain \<^verbatim>\<open>Warning\<close>: the run is reported as failed.\<close>

theorem zero_exit_with_stderr_fails:
  "shell (example_env noting) (command (example_env noting)) prepared
     = Exit0 ''Generated 0 charts'' ''Note: using default style'' prepared
   \<and> fst (execute_python (example_env noting) example_request example_world)
     = Some (server_error ''Python execution failed: Note: using default style'')"
  by (simp add: execute_python_def try_block_def example_request_fields example_prepare
      run_script_def execAsync_def example_env_fields noting_def)

subsection \<open>Validation comes first\<close>

text \<open>
  C6. A request whose data or code is absent or empty is answered with status 400, and
  the handler leaves the state as it found it: no directory is created, no file is
  written and no timer is registered.
\<close>

theorem invalid_input_rejected:
  "falsy (csvData req) \<or> falsy (pythonCode req) \<Longrightarrow>
   execute_python e req w = (Some (Status400 ''csvData and pythonCode are required''), w)"
  by (simp add: execute_python_def try_block_def)

theorem invalid_input_rejected_witness:
  "execute_python (example_env raising) \<lparr>csvData = Some ''a,b'', pythonCode = None\<rparr>
     example_world
   = (Some (Status400 ''csvData and pythonCode are required''), example_world)"
  using invalid_input_rejected [of "\<lparr>csvData = Some ''a,b'', pythonCode = None\<rparr>"
      "example_env raising" example_world]
  by simp

subsection \<open>A run without charts\<close>

text \<open>
  C7, as the code has it. When the interpreter exits with code 0, its standard error is
  empty or contains \<^verbatim>\<open>Warning\<close>, and the listing of the job directory holds no chart
  file, the response has status 200, an empty list of images and the count 0; it is not
  the response of a failure.
\<close>

theorem zero_charts_is_success:
  assumes "\<not> falsy (csvData req)" "\<not> falsy (pythonCode req)"
    and "prepare e (text_of (csvData req)) (text_of (pythonCode req)) (files w) = (None, fs)"
    and "shell e (command e) fs = Exit0 out err fs'"
    and "err = [] \<or> includes_str err ''Warning''"
    and "readdirSync e (jobDir e) fs' = Inr names"
    and "chartFiles names = []"
  shows "execute_python e req w =
     (Some (Status200 [] 0 ''Successfully generated 0 charts'' out),
      w\<lparr>files := fs', timers := timers w @ [(jobDir e, 5000)]\<rparr>)"
proof -
  have "collect e fs' = Inr []"
    using assms(6,7) by (simp add: collect_def)
  from handler_success [OF assms(1-5) this] show ?thesis
    by (simp add: show_nat.simps digit_char_def)
qed

theorem zero_charts_is_success_witness:
  "execute_python (example_env drawing_nothing) example_request example_world =
     (Some (Status200 [] 0 ''Successfully generated 0 charts'' ''Generated 0 charts''),
      example_world\<lparr>files := prepared, timers := [(example_job, 5000)]\<rparr>)"
proof -
  let ?e = "example_env drawing_nothing"
  have 1: "\<not> falsy (csvData example_request)" and 2: "\<not> falsy (pythonCode example_request)"
    by (simp_all add: example_request_fields)
  have 3: "prepare ?e (text_of (csvData example_request)) (text_of (pythonCode example_request))
            (files example_world) = (None, prepared)"
    by (simp add: example_request_fields example_prepare)
  have 4: "shell ?e (command ?e) prepared = Exit0 ''Generated 0 charts'' [] prepared"
    by (simp add: example_env_fields drawing_nothing_def)
  have 5: "[] = [] \<or> includes_str [] ''Warning''" by simp
  have 6: "readdirSync ?e (jobDir ?e) prepared = Inr [''data.csv'', ''script.py'']"
    by (simp only: example_jobDir example_listing)
  have 7: "chartFiles [''data.csv'', ''script.py''] = []"
    by (simp add: chartFiles_def startsWith_def)
  from zero_charts_is_success [OF 1 2 3 4 5 6 7] show ?thesis
    by (simp add: example_jobDir example_world_fields)
qed

text \<open>The claim as stated fails for an interpreter that exits with code 0, draws nothing
  and leaves a note without \<^verbatim>\<open>Warning\<close> on standard error: the job directory holds
  no chart file, and the run is answered as a failure with status 500.\<close>

theorem zero_charts_with_note_fails:
  "shell (example_env noting) (command (example_env noting)) prepared
     = Exit0 ''Generated 0 charts'' ''Note: using default style'' prepared
   \<and> readdirSync (example_env noting) (jobDir (example_env noting)) prepared
     = Inr [''data.csv'', ''script.py'']
   \<and> chartFiles [''data.csv'', ''script.py''] = []
   \<and> fst (execute_python (example_env noting) example_request example_world)
     = Some (Status500 ''Failed to execute Python code''
               ''Python execution failed: Note: using default style''
               ''Make sure Python is installed with pandas, matplotlib, and seaborn'')"
proof -
  have "fst (execute_python (example_env noting) example_request example_world)
     = Some (Status500 ''Failed to execute Python code''
               ''Python execution failed: Note: using default style''
               ''Make sure Python is installed with pandas, matplotlib, and seaborn'')"
    by (simp add: execute_python_def try_block_def example_request_fields example_prepare
        run_script_def execAsync_def example_env_fields noting_def server_error_def)
  moreover have "chartFiles [''data.csv'', ''script.py''] = []"
    by (simp add: chartFiles_def startsWith_def)
  ultimately show ?thesis
    by (simp add: example_env_fields noting_def example_jobDir example_listing)
qed

subsection \<open>The epilogue\<close>

lemma chart_name_inj: "chart_name a = chart_name b \<Longrightarrow> a = b"
  by (metis read_show_nat chart_name_def append_same_eq same_append_eq)

lemma map_of_filter_neq:
  "k \<noteq> i \<Longrightarrow> map_of (filter (\<lambda>(n, fig). n \<noteq> i) xs) k = map_of xs k"
  by (induction xs) auto

text \<open>The loop, started with the counter at \<open>c\<close> on distinct numbers of open figures:
  it ends with the counter advanced by their number, has closed these figures, has
  written the \<open>k\<close>-th of them to the file numbered \<open>c + k\<close> and has written no other
  file.\<close>

lemma save_figures_inv:
  assumes "distinct nums" "set nums \<subseteq> fst ` set (figs st)"
  shows "fst (save_figures nums c st) = c + length nums
    \<and> figs (snd (save_figures nums c st)) = filter (\<lambda>(n, fig). n \<notin> set nums) (figs st)
    \<and> printed (snd (save_figures nums c st)) = printed st
    \<and> (\<forall>k < length nums. cwd (snd (save_figures nums c st)) (chart_name (c + k))
           = map_of (figs st) (nums ! k))
    \<and> (\<forall>name. (\<forall>k < length nums. name \<noteq> chart_name (c + k)) \<longrightarrow>
           cwd (snd (save_figures nums c st)) name = cwd st name)"
  using assms
proof (induction nums arbitrary: c st)
  case Nil
  then show ?case by simp
next
  case (Cons i nums)
  from Cons.prems have "i \<in> fst ` set (figs st)" by simp
  then have "map_of (figs st) i \<noteq> None" by (simp add: map_of_eq_None_iff)
  then obtain fig where fig: "map_of (figs st) i = Some fig" by blast
  define st3 where "st3 = plt_close i (savefig (chart_name c) fig st)"
  have step: "save_figures (i # nums) c st = save_figures nums (Suc c) st3"
    by (simp add: plt_figure_def fig st3_def)
  have figs3: "figs st3 = filter (\<lambda>(n, fig). n \<noteq> i) (figs st)"
    and cwd3: "cwd st3 = (cwd st)(chart_name c \<mapsto> fig)"
    and pr3: "printed st3 = printed st"
    by (simp_all add: st3_def plt_close_def savefig_def)
  have d: "distinct nums" and ni: "i \<notin> set nums" using Cons.prems by auto
  have sub: "set nums \<subseteq> fst ` set (figs st3)"
  proof
    fix n assume n: "n \<in> set nums"
    with Cons.prems(2) obtain f where "(n, f) \<in> set (figs st)" by auto
    moreover from n ni have "n \<noteq> i" by auto
    ultimately have "(n, f) \<in> set (figs st3)" by (simp add: figs3)
    then show "n \<in> fst ` set (figs st3)" by force
  qed
  note IH = Cons.IH [OF d sub, of "Suc c"]
  have lookup3: "map_of (figs st3) n = map_of (figs st) n" if "n \<in> set nums" for n
    using that ni by (auto simp: figs3 intro!: map_of_filter_neq)
  show ?case
  proof (intro conjI allI impI)
    show "fst (save_figures (i # nums) c st) = c + length (i # nums)"
      unfolding step using IH by simp
    show "figs (snd (save_figures (i # nums) c st))
        = filter (\<lambda>(n, fig). n \<notin> set (i # nums)) (figs st)"
      unfolding step using IH by (auto simp: figs3 intro: filter_cong)
    show "printed (snd (save_figures (i # nums) c st)) = printed st"
      unfolding step using IH by (simp add: pr3)
  next
    fix k assume k: "k < length (i # nums)"
    show "cwd (snd (save_figures (i # nums) c st)) (chart_name (c + k))
        = map_of (figs st) ((i # nums) ! k)"
    proof (cases k)
      case 0
      have "\<forall>j < length nums. chart_name c \<noteq> chart_name (Suc c + j)"
        by (auto dest: chart_name_inj)
      with IH have "cwd (snd (save_figures nums (Suc c) st3)) (chart_name c)
          = cwd st3 (chart_name c)"
        by blast
      with 0 show ?thesis unfolding step by (simp add: cwd3 fig)
    next
      case (Suc j)
      with k have j: "j < length nums" by simp
      with IH have "cwd (snd (save_figures nums (Suc c) st3)) (chart_name (Suc c + j))
          = map_of (figs st3) (nums ! j)" by blast
      with j Suc show ?thesis unfolding step by (simp add: lookup3)
    qed
  next
    fix name assume other: "\<forall>k < length (i # nums). name \<noteq> chart_name (c + k)"
    then have "name \<noteq> chart_name c" by force
    moreover have "\<forall>j < length nums. name \<noteq> chart_name (Suc c + j)"
    proof (intro allI impI)
      fix j assume "j < length nums"
      with other have "name \<noteq> chart_name (c + Suc j)" by (metis Suc_less_eq length_Cons)
      then show "name \<noteq> chart_name (Suc c + j)" by simp
    qed
    ultimately show "cwd (snd (save_figures (i # nums) c st)) name = cwd st name"
      unfolding step using IH by (simp add: cwd3)
  qed
qed

lemma map_of_own_keys:
  "distinct (map fst xs) \<Longrightarrow> map (map_of xs) (map fst xs) = map (Some \<circ> snd) xs"
  by (auto intro: map_of_is_SomeI)

text \<open>
  C8, as the code has it. Run on open figures with distinct numbers, the epilogue closes
  every figure and writes the files \<^verbatim>\<open>chart_0.png\<close> to \<^verbatim>\<open>chart_(n-1).png\<close>, one for each
  of the \<open>n\<close> figures and no other file, in the order of \<^verbatim>\<open>plt.get_fignums()\<close>: the
  ascending order of the figure numbers. That is the order of creation when the numbers
  ascend in the order of creation, as the numbers that matplotlib assigns do. It then
  prints the count.
\<close>

theorem epilogue_numbers_by_figure_number:
  assumes "distinct (map fst (figs st))"
  shows "figs (run_epilogue st) = []
    \<and> saved_charts (run_epilogue st) (length (figs st))
        = map (map_of (figs st)) (sort (map fst (figs st)))
    \<and> (sorted (map fst (figs st)) \<longrightarrow>
         saved_charts (run_epilogue st) (length (figs st)) = map (Some \<circ> snd) (figs st))
    \<and> (\<forall>name. name \<notin> set (map chart_name [0..<length (figs st)]) \<longrightarrow>
         cwd (run_epilogue st) name = cwd st name)
    \<and> printed (run_epilogue st)
        = printed st @ [''Generated '' @ show_nat (length (figs st)) @ '' charts'']"
proof -
  let ?nums = "get_fignums st"
  have d: "distinct ?nums" and s: "set ?nums \<subseteq> fst ` set (figs st)"
    and l: "length ?nums = length (figs st)"
    using assms by (simp_all add: get_fignums_def)
  note inv = save_figures_inv [OF d s, of 0]
  obtain n st' where r: "save_figures ?nums 0 st = (n, st')"
    by (cases "save_figures ?nums 0 st")
  have e: "run_epilogue st
      = st'\<lparr>printed := printed st' @ [''Generated '' @ show_nat n @ '' charts'']\<rparr>"
    by (simp add: run_epilogue_def r)
  from inv r l have n: "n = length (figs st)" by simp
  have "filter (\<lambda>(n, fig). n \<notin> set ?nums) (figs st) = []"
    by (force simp: get_fignums_def filter_empty_conv)
  with inv r have f: "figs st' = []" by simp
  from inv r have p: "printed st' = printed st" by simp
  from inv r have c: "\<forall>k < length ?nums. cwd st' (chart_name k) = map_of (figs st) (?nums ! k)"
    by simp
  from inv r have o: "\<forall>name. (\<forall>k < length ?nums. name \<noteq> chart_name k) \<longrightarrow>
      cwd st' name = cwd st name"
    by simp
  have saved: "saved_charts (run_epilogue st) (length (figs st)) = map (map_of (figs st)) ?nums"
    by (rule nth_equalityI) (simp_all add: saved_charts_def e l c [rule_format])
  have created: "saved_charts (run_epilogue st) (length (figs st)) = map (Some \<circ> snd) (figs st)"
    if "sorted (map fst (figs st))"
  proof -
    from that have "?nums = map fst (figs st)"
      by (simp add: get_fignums_def sorted_sort_id)
    with saved assms show ?thesis by (simp add: map_of_own_keys)
  qed
  have others: "cwd (run_epilogue st) name = cwd st name"
    if "name \<notin> set (map chart_name [0..<length (figs st)])" for name
  proof -
    from that have "\<forall>k < length ?nums. name \<noteq> chart_name k" by (auto simp: l)
    with o show ?thesis by (simp add: e)
  qed
  from saved created others show ?thesis by (simp add: e f p n get_fignums_def)
qed

theorem epilogue_numbers_by_figure_number_witness:
  "figs (run_epilogue automatic_numbers) = []
   \<and> saved_charts (run_epilogue automatic_numbers) 2 = [Some ''bars'', Some ''lines'']
   \<and> cwd (run_epilogue automatic_numbers) ''chart_2.png'' = None
   \<and> printed (run_epilogue automatic_numbers) = [''Generated 2 charts'']"
proof -
  have d: "distinct (map fst (figs automatic_numbers))"
    by (simp add: automatic_numbers_def)
  have s: "sorted (map fst (figs automatic_numbers))"
    by (simp add: automatic_numbers_def)
  have len: "length (figs automatic_numbers) = 2"
    by (simp add: automatic_numbers_def)
  have n: "''chart_2.png'' \<notin> set (map chart_name [0..<2])"
    by (simp add: chart_name_def show_nat.simps digit_char_def upt_rec)
  have v: "map (Some \<circ> snd) (figs automatic_numbers) = [Some ''bars'', Some ''lines'']"
    and p: "printed automatic_numbers = []"
    and c: "cwd automatic_numbers ''chart_2.png'' = None"
    by (simp_all add: automatic_numbers_def)
  have m: "''Generated '' @ show_nat 2 @ '' charts'' = ''Generated 2 charts''"
    by (simp add: show_nat.simps digit_char_def)
  note t = epilogue_numbers_by_figure_number [OF d, unfolded len v p c m]
  from t s have "saved_charts (run_epilogue automatic_numbers) 2 = [Some ''bars'', Some ''lines'']"
    by blast
  moreover from t n have "cwd (run_epilogue automatic_numbers) ''chart_2.png''
      = cwd automatic_numbers ''chart_2.png''"
    by blast
  ultimately show ?thesis using t by (simp add: c)
qed

text \<open>The claim as stated fails for a fragment that numbers its figures itself: with
  figure 2 created before figure 1, \<^verbatim>\<open>chart_0.png\<close> holds the figure created last.\<close>

theorem epilogue_not_creation_order:
  "saved_charts (run_epilogue explicit_numbers) (length (figs explicit_numbers))
     = [Some ''lines'', Some ''bars'']
   \<and> map (Some \<circ> snd) (figs explicit_numbers) = [Some ''bars'', Some ''lines'']"
  by (simp add: saved_charts_def run_epilogue_def get_fignums_def explicit_numbers_def
      plt_figure_def savefig_def plt_close_def chart_name_def show_nat.simps digit_char_def
      upt_rec)

subsection \<open>Job directories of two requests\<close>

text \<open>
  C9, as the code has it. The identifier is made of the clock's milliseconds and of nine
  characters of the random number's text. Two requests get the same job directory exactly
  when they are served from the same temp directory, read the same millisecond and agree
  on these nine characters; in every other case their directories differ.
\<close>

theorem job_directories_equal_iff:
  "jobDir e1 = jobDir e2 \<longleftrightarrow>
     tempDir e1 = tempDir e2 \<and> now e1 = now e2
     \<and> substr (random36 e1) 2 9 = substr (random36 e2) 2 9"
  by (auto simp: jobDir_def path_join_def jobId_eq_iff)

theorem job_directories_equal_iff_witness:
  "jobDir (example_env raising) \<noteq> jobDir ((example_env raising)\<lparr>now := 1730631234568\<rparr>)"
  using job_directories_equal_iff [of "example_env raising"
      "(example_env raising)\<lparr>now := 1730631234568\<rparr>"]
  by (simp add: example_env_def)

lemma second_env_fields:
  "dirname (second_env sh) = [''srv'', ''app'', ''backend'', ''routers'']"
  "now (second_env sh) = 1730631234567"
  "random36 (second_env sh) = ''0.4fzyo82mvzz''"
  "fault (second_env sh) call = None"
  by (simp_all add: second_env_def example_env_def)

lemma second_tempDir: "tempDir (second_env sh) = [''srv'', ''app'', ''temp'']"
  by (simp add: tempDir_def second_env_fields path_join_def)

lemma second_jobDir: "jobDir (second_env sh) = example_job"
  by (simp add: jobDir_def second_tempDir second_env_fields path_join_def example_job_def
      jobId_def substr_def show_nat.simps digit_char_def)

text \<open>The claim as stated fails for two requests in the same millisecond whose random
  numbers differ only after the characters that are kept: both get the same directory,
  the second is not refused, and it replaces the data file of the first.\<close>

theorem job_directory_shared:
  "random36 (second_env raising) \<noteq> random36 (example_env raising)
   \<and> jobDir (second_env raising) = jobDir (example_env raising)
   \<and> fst (prepare (second_env raising) ''x,y'' ''plt.plot(data.x)'' prepared) = None
   \<and> map_of prepared (csvPath (example_env raising)) = Some (File ''a,b'')
   \<and> map_of (snd (prepare (second_env raising) ''x,y'' ''plt.plot(data.x)'' prepared))
       (csvPath (example_env raising)) = Some (File ''x,y'')"
  by (simp add: second_jobDir example_jobDir second_env_fields example_env_fields
      prepare_def csvPath_def scriptPath_def second_tempDir path_join_def mkdirSync_def
      writeFileSync_def existsSync_def is_dir_def prepared_def example_job_def)

subsection \<open>What the cleanup leaves alone\<close>

lemma map_of_filter_keep:
  "P k \<Longrightarrow> map_of (filter (\<lambda>(q, n). P q) xs) k = map_of xs k"
  by (induction xs) auto

lemma rmSync_outside: "\<not> prefix p q \<Longrightarrow> map_of (rmSync p fs) q = map_of fs q"
  unfolding rmSync_def by (rule map_of_filter_keep)

lemma rmSync_rest:
  "filter (\<lambda>(q, n). \<not> prefix p q) (rmSync p fs) = filter (\<lambda>(q, n). \<not> prefix p q) fs"
  by (simp add: rmSync_def)

lemma cleanup_cases: "cleanup e p fs = fs \<or> cleanup e p fs = rmSync p fs"
  by (simp add: cleanup_def split: option.splits)

lemma cleanup_outside: "\<not> prefix p q \<Longrightarrow> map_of (cleanup e p fs) q = map_of fs q"
  using cleanup_cases [of e p fs] by (auto simp: rmSync_outside)

lemma cleanup_rest:
  "filter (\<lambda>(q, n). \<not> prefix p q) (cleanup e p fs) = filter (\<lambda>(q, n). \<not> prefix p q) fs"
  using cleanup_cases [of e p fs] by (auto simp: rmSync_rest)

lemma sibling_not_under:
  "a \<noteq> b \<Longrightarrow> prefix (path_join d b) q \<Longrightarrow> \<not> prefix (path_join d a) q"
  by (auto simp: path_join_def prefix_def)

lemma parent_not_under: "\<not> prefix (path_join d a) d"
  by (auto simp: path_join_def prefix_def)

text \<open>
  C10, as the code has it. The callback that the handler registers removes the job
  directory of its own request, or nothing when the removal fails. Whichever it is, the
  temp directory is still there, every entry at or below the directory of a job with
  another identifier is as before, and so is, in the same order, every entry of the file
  system that is not at or below the removed directory. A request that was given the
  same identifier has the same directory, and is not spared.
\<close>

theorem cleanup_frame:
  assumes "other \<noteq> jobId (now e) (random36 e)"
  shows "map_of (cleanup e (jobDir e) fs) (tempDir e) = map_of fs (tempDir e)
       \<and> (\<forall>q. prefix (path_join (tempDir e) other) q \<longrightarrow>
             map_of (cleanup e (jobDir e) fs) q = map_of fs q)
       \<and> filter (\<lambda>(q, n). \<not> prefix (jobDir e) q) (cleanup e (jobDir e) fs)
           = filter (\<lambda>(q, n). \<not> prefix (jobDir e) q) fs"
proof (intro conjI allI impI)
  show "map_of (cleanup e (jobDir e) fs) (tempDir e) = map_of fs (tempDir e)"
    by (rule cleanup_outside) (simp add: jobDir_def parent_not_under)
next
  fix q assume "prefix (path_join (tempDir e) other) q"
  with assms have "\<not> prefix (jobDir e) q"
    unfolding jobDir_def by (metis sibling_not_under)
  then show "map_of (cleanup e (jobDir e) fs) q = map_of fs q"
    by (rule cleanup_outside)
next
  show "filter (\<lambda>(q, n). \<not> prefix (jobDir e) q) (cleanup e (jobDir e) fs)
           = filter (\<lambda>(q, n). \<not> prefix (jobDir e) q) fs"
    by (rule cleanup_rest)
qed

theorem cleanup_frame_witness:
  "map_of (cleanup (example_env raising) (jobDir (example_env raising)) two_jobs)
      [''srv'', ''app'', ''temp''] = Some Dir
   \<and> map_of (cleanup (example_env raising) (jobDir (example_env raising)) two_jobs)
      (other_job @ [''chart_0.png'']) = Some (File ''fig0'')
   \<and> map_of (cleanup (example_env raising) (jobDir (example_env raising)) two_jobs)
      example_job = None"
proof -
  let ?e = "example_env raising"
  have 1: "''job_1730631234568_9k2m4x7qp'' \<noteq> jobId (now ?e) (random36 ?e)"
    by (simp add: example_env_fields example_jobId)
  have 2: "prefix (path_join (tempDir ?e) ''job_1730631234568_9k2m4x7qp'')
             (other_job @ [''chart_0.png''])"
    by (simp add: example_tempDir path_join_def other_job_def)
  have 3: "map_of (cleanup ?e (jobDir ?e) two_jobs) example_job = None"
    by (simp add: cleanup_def example_env_fields example_jobDir rmSync_def two_jobs_def
        prepared_def example_job_def other_job_def)
  from cleanup_frame [OF 1, of two_jobs] 2 3 show ?thesis
    by (simp add: example_tempDir two_jobs_def prepared_def example_job_def other_job_def)
qed

lemma second_prepare:
  "prepare (second_env sh) ''x,y'' ''plt.plot(data.x)'' prepared = (None, shared_workspace)"
  by (simp add: prepare_def csvPath_def scriptPath_def second_jobDir second_tempDir
      path_join_def mkdirSync_def writeFileSync_def existsSync_def is_dir_def
      second_env_fields prepared_def shared_workspace_def example_job_def)

text \<open>The claim as stated fails for a request that was given the directory of another:
  when the second request of the same millisecond has written its data into the shared
  directory, the cleanup of the first removes the data file and the directory of the
  second.\<close>

theorem cleanup_removes_shared_workspace:
  "random36 (second_env raising) \<noteq> random36 (example_env raising)
   \<and> prepare (second_env raising) ''x,y'' ''plt.plot(data.x)'' prepared
       = (None, shared_workspace)
   \<and> map_of shared_workspace (csvPath (second_env raising)) = Some (File ''x,y'')
   \<and> map_of (cleanup (example_env raising) (jobDir (example_env raising)) shared_workspace)
       (csvPath (second_env raising)) = None
   \<and> map_of (cleanup (example_env raising) (jobDir (example_env raising)) shared_workspace)
       (jobDir (second_env raising)) = None"
  by (simp add: second_prepare second_env_fields example_env_fields csvPath_def
      second_jobDir example_jobDir path_join_def cleanup_def rmSync_def
      shared_workspace_def example_job_def)

end
